theory Spec2Isabelle
  imports Main "HOL-Library.Word"
begin

section \<open>The blueprint scripts of satisfontory\<close>

text \<open>
  The repository consists of two scripts, \<^verbatim>\<open>save-blueprint.js\<close> and
  \<^verbatim>\<open>parse-blueprint.js\<close>. Both delegate the binary format to the package
  \<^verbatim>\<open>@etothepii/satisfactory-file-parser\<close>, whose code is not part of the repository.
  The scripts are modelled as they are written; the two entry points of the package
  that they call are parameters of the model, described by what a script can observe of
  a call: the sink invocations made during the call and the value returned, or the
  exception thrown.
\<close>

subsection \<open>Data\<close>

text \<open>A \<^verbatim>\<open>Buffer\<close>, \<^verbatim>\<open>Uint8Array\<close> or \<^verbatim>\<open>ArrayBuffer\<close> is its sequence of bytes.\<close>

type_synonym bytes = "8 word list"

type_synonym path = string

text \<open>
  What a script can die of: a file that \<^verbatim>\<open>fs.readFileSync\<close> does not find, text that
  \<^verbatim>\<open>JSON.parse\<close> rejects, an exception thrown inside the package, and the
  \<^verbatim>\<open>TypeError\<close> of \<^verbatim>\<open>Buffer.concat\<close> on a list element that is not a byte array.
  Neither script has a \<^verbatim>\<open>try\<close>: the first exception ends the run.
\<close>

datatype js_error = ENOENT | SyntaxError | ParserError | TypeError

text \<open>The file system (paths to contents) and the lines printed by \<^verbatim>\<open>console.log\<close>.\<close>

record io_state =
  console :: "string list"
  files :: "path \<rightharpoonup> bytes"

text \<open>
  \<^verbatim>\<open>save-blueprint.js\<close>, lines 9 and 10: \<^verbatim>\<open>let mainFileHeader;\<close> starts as
  \<^verbatim>\<open>undefined\<close> (here \<open>None\<close>), \<^verbatim>\<open>const mainFileBodyChunks = [];\<close> starts empty.
\<close>

record save_state = io_state +
  mainFileHeader :: "bytes option"
  mainFileBodyChunks :: "bytes list"

text \<open>
  One invocation, by \<^verbatim>\<open>Parser.WriteBlueprintFiles\<close>, of the second argument (the header
  sink) or of the third (the body chunk sink), with the bytes passed.
\<close>

datatype sink_call = OnHeader bytes | OnChunk bytes

text \<open>The object returned by \<^verbatim>\<open>Parser.WriteBlueprintFiles\<close>; the script reads one field.\<close>

record summary =
  configFileBinary :: bytes

subsection \<open>save-blueprint.js\<close>

text \<open>Lines 13 to 16: the header sink logs and overwrites the variable.\<close>

definition on_header :: "bytes \<Rightarrow> save_state \<Rightarrow> save_state" where
  "on_header header s =
     s\<lparr>console := console s @ [''on main file header.''],
       mainFileHeader := Some header\<rparr>"

text \<open>Lines 17 to 20: the chunk sink logs and pushes onto the end of the array.\<close>

definition on_chunk :: "bytes \<Rightarrow> save_state \<Rightarrow> save_state" where
  "on_chunk chunk s =
     s\<lparr>console := console s @ [''on main file body chunk.''],
       mainFileBodyChunks := mainFileBodyChunks s @ [chunk]\<rparr>"

fun deliver :: "save_state \<Rightarrow> sink_call \<Rightarrow> save_state" where
  "deliver s (OnHeader header) = on_header header s"
| "deliver s (OnChunk chunk) = on_chunk chunk s"

text \<open>The invocations of one call of the package, in the order they are made.\<close>

fun run_sinks :: "save_state \<Rightarrow> sink_call list \<Rightarrow> save_state" where
  "run_sinks s [] = s"
| "run_sinks s (c # cs) = run_sinks (deliver s c) cs"

text \<open>
  \<^verbatim>\<open>Buffer.concat(list)\<close>: the elements joined in list order; an element that is not a
  byte array (here: the variable still \<^verbatim>\<open>undefined\<close>) makes it throw a \<^verbatim>\<open>TypeError\<close>.
\<close>

fun Buffer_concat :: "bytes option list \<Rightarrow> js_error + bytes" where
  "Buffer_concat [] = Inr []"
| "Buffer_concat (None # bs) = Inl TypeError"
| "Buffer_concat (Some b # bs) =
     (case Buffer_concat bs of Inl e \<Rightarrow> Inl e | Inr r \<Rightarrow> Inr (b @ r))"

definition in_path :: path where
  "in_path = ''New Blueprint 2.json''"

definition out_path :: path where
  "out_path =
     ''C:/Users/GU/AppData/Local/FactoryGame/Saved/SaveGames/blueprints/TEST2/New Blueprint 2.sbp''"

definition out_path_cfg :: path where
  "out_path_cfg =
     ''C:/Users/GU/AppData/Local/FactoryGame/Saved/SaveGames/blueprints/TEST2/New Blueprint 2.sbpcfg''"

text \<open>
  The whole script. \<open>JSON_parse\<close> stands for \<^verbatim>\<open>JSON.parse(file.toString())\<close> and
  \<open>WriteBlueprintFiles\<close> for the package's encoder: for a blueprint it gives the sink
  invocations made before the call ends (the sinks are called synchronously) and then
  the summary returned or the exception thrown. An exception leaves the script before
  either \<^verbatim>\<open>fs.writeFileSync\<close>; the writes themselves are taken to succeed.
\<close>

definition save_blueprint ::
  "(bytes \<Rightarrow> js_error + 'doc) \<Rightarrow> ('doc \<Rightarrow> sink_call list \<times> (js_error + summary)) \<Rightarrow>
   (path \<rightharpoonup> bytes) \<Rightarrow> js_error + save_state" where
  "save_blueprint JSON_parse WriteBlueprintFiles fs =
     (case fs in_path of
        None \<Rightarrow> Inl ENOENT
      | Some file \<Rightarrow>
     (case JSON_parse file of
        Inl e \<Rightarrow> Inl e
      | Inr blueprint \<Rightarrow>
     (let (calls, result) = WriteBlueprintFiles blueprint;
          s = run_sinks \<lparr>console = [], files = fs,
                         mainFileHeader = None, mainFileBodyChunks = []\<rparr> calls
      in case result of
        Inl e \<Rightarrow> Inl e
      | Inr summary \<Rightarrow>
     (case Buffer_concat (mainFileHeader s # map Some (mainFileBodyChunks s)) of
        Inl e \<Rightarrow> Inl e
      | Inr main \<Rightarrow>
          Inr (s\<lparr>files := (files s)(out_path \<mapsto> main,
                                     out_path_cfg \<mapsto> configFileBinary summary)\<rparr>)))))"

text \<open>The headers, and the chunks, among the invocations of a call, in order.\<close>

fun headers_of :: "sink_call list \<Rightarrow> bytes list" where
  "headers_of [] = []"
| "headers_of (OnHeader h # cs) = h # headers_of cs"
| "headers_of (OnChunk c # cs) = headers_of cs"

fun chunks_of :: "sink_call list \<Rightarrow> bytes list" where
  "chunks_of [] = []"
| "chunks_of (OnHeader h # cs) = chunks_of cs"
| "chunks_of (OnChunk c # cs) = c # chunks_of cs"

subsection \<open>The encoder the script calls\<close>

text \<open>
  Modelled from the spec: the Document that \<^verbatim>\<open>Parser.WriteBlueprintFiles\<close> takes. The
  encoder belongs to the package \<^verbatim>\<open>@etothepii/satisfactory-file-parser\<close> and is absent
  from the repository. The spec (section 3): a header with "format version, object
  counts, bounding-box/footprint metadata"; a body that is an "ordered sequence of
  placed-object records, each with a type identifier, transform (position/rotation),
  and type-specific property payload", a record having "its own declared length field"
  (section 4.3); a config with "icon, display name, category", "keyed by the same
  blueprint identity as the body". What the spec leaves open (the bounding metadata,
  the identity, the transform) is a type parameter.
\<close>

record 'm blueprint_header =
  format_version :: nat
  object_count :: nat
  bounding :: 'm

record 't object_record =
  type_identifier :: nat
  transform :: 't
  declared_length :: nat
  payload :: bytes

record ('i, 't) blueprint_body =
  body_identity :: 'i
  object_records :: "'t object_record list"

record 'i blueprint_config =
  config_identity :: 'i
  icon :: string
  display_name :: string
  category :: string

record ('m, 'i, 't) document =
  doc_header :: "'m blueprint_header"
  doc_body :: "('i, 't) blueprint_body"
  doc_config :: "'i blueprint_config"

text \<open>
  Modelled from the spec: the valid Documents, for the absent encoder. The spec
  (section 3): "Header's declared object count equals Body's record count; Config's
  identity matches the body it accompanies"; and (section 4.3) no "record payload
  exceeding its own declared length field".
\<close>

definition valid_document :: "('m, 'i, 't) document \<Rightarrow> bool" where
  "valid_document D =
     (object_count (doc_header D) = length (object_records (doc_body D)) \<and>
      config_identity (doc_config D) = body_identity (doc_body D) \<and>
      (\<forall>r \<in> set (object_records (doc_body D)). length (payload r) \<le> declared_length r))"

text \<open>
  Modelled from the spec: the byte layout of the absent encoder, which the spec does not
  give. It is a parameter: the bytes of a header, the bytes of a body already cut into
  its chunks (a first chunk and the further ones, so "one or more"), and the bytes of a
  config.
\<close>

record ('m, 'i, 't) layout =
  header_layout :: "'m blueprint_header \<Rightarrow> bytes"
  body_layout :: "('i, 't) blueprint_body \<Rightarrow> bytes \<times> bytes list"
  config_layout :: "'i blueprint_config \<Rightarrow> bytes"

definition body_chunks :: "('m, 'i, 't) layout \<Rightarrow> ('m, 'i, 't) document \<Rightarrow> bytes list" where
  "body_chunks L D = (case body_layout L (doc_body D) of (c, cs) \<Rightarrow> c # cs)"

text \<open>
  Modelled from the spec: the encoder \<^verbatim>\<open>Parser.WriteBlueprintFiles\<close> of the absent
  package, as the script observes a call. The spec (section 4.3): it "emits the header
  once via the header sink, then emits body content in one or more chunks via the body
  sink", "also independently produces the config file's binary payload, returned as a
  distinct result", and "fails with EncodingError if the Document violates an
  invariant". The failure reaches the script as an exception thrown inside the package,
  before any sink is invoked.
\<close>

definition WriteBlueprintFiles_spec ::
  "('m, 'i, 't) layout \<Rightarrow> ('m, 'i, 't) document \<Rightarrow> sink_call list \<times> (js_error + summary)" where
  "WriteBlueprintFiles_spec L D =
     (if valid_document D
      then (OnHeader (header_layout L (doc_header D)) # map OnChunk (body_chunks L D),
            Inr \<lparr>configFileBinary = config_layout L (doc_config D)\<rparr>)
      else ([], Inl ParserError))"

text \<open>
  A valid Document with two records, and a layout for it: the header as its version and
  object count, one chunk for each record's payload, the config as its identity.
\<close>

definition example_document :: "(unit, nat, unit) document" where
  "example_document =
     \<lparr>doc_header = \<lparr>format_version = 1, object_count = 2, bounding = ()\<rparr>,
      doc_body = \<lparr>body_identity = 7,
                  object_records =
                    [\<lparr>type_identifier = 3, transform = (), declared_length = 2,
                      payload = [1, 2]\<rparr>,
                     \<lparr>type_identifier = 4, transform = (), declared_length = 4,
                      payload = [3]\<rparr>]\<rparr>,
      doc_config = \<lparr>config_identity = 7, icon = ''i'', display_name = ''n'',
                    category = ''c''\<rparr>\<rparr>"

definition example_layout :: "(unit, nat, unit) layout" where
  "example_layout =
     \<lparr>header_layout = (\<lambda>h. [of_nat (format_version h), of_nat (object_count h)]),
      body_layout = (\<lambda>b. case map payload (object_records b) of
                            [] \<Rightarrow> ([], [])
                          | p # ps \<Rightarrow> (p, ps)),
      config_layout = (\<lambda>c. [of_nat (config_identity c)])\<rparr>"

subsection \<open>parse-blueprint.js\<close>

definition sbp_path :: path where
  "sbp_path =
     ''C:/Users/GU/AppData/Local/FactoryGame/Saved/SaveGames/blueprints/TEST2/New Blueprint.sbp''"

definition sbpcfg_path :: path where
  "sbpcfg_path =
     ''C:/Users/GU/AppData/Local/FactoryGame/Saved/SaveGames/blueprints/TEST2/New Blueprint.sbpcfg''"

definition json_path :: path where
  "json_path = ''New Blueprint.json''"

text \<open>
  The whole script. \<open>ParseBlueprintFiles\<close> stands for the package's decoder, called with
  the fixed name and the contents of the two files; \<open>JSON_stringify\<close> for
  \<^verbatim>\<open>JSON.stringify(blueprint, null, 2)\<close>.
\<close>

definition parse_blueprint ::
  "(string \<Rightarrow> bytes \<Rightarrow> bytes \<Rightarrow> js_error + 'doc) \<Rightarrow> ('doc \<Rightarrow> js_error + bytes) \<Rightarrow>
   (path \<rightharpoonup> bytes) \<Rightarrow> js_error + io_state" where
  "parse_blueprint ParseBlueprintFiles JSON_stringify fs =
     (case fs sbp_path of
        None \<Rightarrow> Inl ENOENT
      | Some file \<Rightarrow>
     (case fs sbpcfg_path of
        None \<Rightarrow> Inl ENOENT
      | Some configFile \<Rightarrow>
     (case ParseBlueprintFiles ''Framed Glass Container'' file configFile of
        Inl e \<Rightarrow> Inl e
      | Inr blueprint \<Rightarrow>
     (case JSON_stringify blueprint of
        Inl e \<Rightarrow> Inl e
      | Inr text \<Rightarrow>
          Inr \<lparr>console = [''Blueprint parsed successfully!'',
                           ''Output saved to: Framed Glass Container.json''],
               files = fs(json_path \<mapsto> text)\<rparr>))))"

section \<open>Properties of save-blueprint.js\<close>

lemma out_paths_differ: "out_path \<noteq> out_path_cfg"
  by (simp add: out_path_def out_path_cfg_def)

text \<open>What the sinks leave in the two variables after any sequence of invocations.\<close>

lemma run_sinks_chunks:
  "mainFileBodyChunks (run_sinks s calls) = mainFileBodyChunks s @ chunks_of calls"
proof (induction calls arbitrary: s)
  case Nil
  show ?case by simp
next
  case (Cons c calls)
  show ?case
    by (cases c) (simp_all add: Cons.IH on_header_def on_chunk_def)
qed

lemma run_sinks_header:
  "mainFileHeader (run_sinks s calls) =
     (if headers_of calls = [] then mainFileHeader s else Some (last (headers_of calls)))"
proof (induction calls arbitrary: s)
  case Nil
  show ?case by simp
next
  case (Cons c calls)
  show ?case
    by (cases c) (simp_all add: Cons.IH on_header_def on_chunk_def)
qed

lemma run_sinks_files: "files (run_sinks s calls) = files s"
proof (induction calls arbitrary: s)
  case Nil
  show ?case by simp
next
  case (Cons c calls)
  show ?case
    by (cases c) (simp_all add: Cons.IH on_header_def on_chunk_def)
qed

lemma Buffer_concat_Some: "Buffer_concat (map Some bs) = Inr (concat bs)"
  by (induction bs) simp_all

text \<open>
  The files after a run in which the input is read and parsed, the package returns, and
  the header sink has been invoked at least once.
\<close>

lemma save_blueprint_files:
  assumes "fs in_path = Some contents"
    and "JSON_parse contents = Inr blueprint"
    and "WriteBlueprintFiles blueprint = (calls, Inr summary)"
    and "headers_of calls \<noteq> []"
  shows "\<exists>s. save_blueprint JSON_parse WriteBlueprintFiles fs = Inr s \<and>
             files s = fs(out_path \<mapsto> last (headers_of calls) @ concat (chunks_of calls),
                          out_path_cfg \<mapsto> configFileBinary summary)"
  using assms
  by (simp add: save_blueprint_def Let_def run_sinks_header run_sinks_chunks
      run_sinks_files Buffer_concat_Some)

text \<open>
  With no header delivered the variable is still \<^verbatim>\<open>undefined\<close> when the main file is
  assembled: \<^verbatim>\<open>Buffer.concat\<close> throws and nothing is written.
\<close>

lemma save_blueprint_no_header:
  assumes "fs in_path = Some contents"
    and "JSON_parse contents = Inr blueprint"
    and "WriteBlueprintFiles blueprint = (calls, Inr summary)"
    and "headers_of calls = []"
  shows "save_blueprint JSON_parse WriteBlueprintFiles fs = Inl TypeError"
  using assms
  by (simp add: save_blueprint_def Let_def run_sinks_header)

lemma headers_of_map_OnChunk: "headers_of (map OnChunk cs) = []"
  by (induction cs) simp_all

lemma chunks_of_map_OnChunk: "chunks_of (map OnChunk cs) = cs"
  by (induction cs) simp_all

lemma body_chunks_nonempty: "body_chunks L D \<noteq> []"
  by (simp add: body_chunks_def split: prod.split)

subsection \<open>Assembly of the main file\<close>

text \<open>
  C7. For every valid Document that the script reads, the encoder invokes the header
  sink exactly once, first, and then the chunk sink one or more times and nothing else,
  and returns its summary; the script then ends normally, the bytes it writes to the
  main file are the header followed by the chunks joined in the order they were
  emitted, and the bytes it writes to the config file are those of the Document's
  config, which reach it in the returned summary and not through a sink.
\<close>

theorem main_file_is_header_then_chunks:
  assumes "fs in_path = Some contents"
    and "JSON_parse contents = Inr D"
    and "valid_document D"
  shows "WriteBlueprintFiles_spec L D =
           (OnHeader (header_layout L (doc_header D)) # map OnChunk (body_chunks L D),
            Inr \<lparr>configFileBinary = config_layout L (doc_config D)\<rparr>) \<and>
         body_chunks L D \<noteq> [] \<and>
         (\<exists>s. save_blueprint JSON_parse (WriteBlueprintFiles_spec L) fs = Inr s \<and>
              files s out_path =
                Some (header_layout L (doc_header D) @ concat (body_chunks L D)) \<and>
              files s out_path_cfg = Some (config_layout L (doc_config D)))"
proof -
  let ?calls = "OnHeader (header_layout L (doc_header D)) # map OnChunk (body_chunks L D)"
  let ?summary = "\<lparr>configFileBinary = config_layout L (doc_config D)\<rparr>"
  have emit: "WriteBlueprintFiles_spec L D = (?calls, Inr ?summary)"
    using assms(3) by (simp add: WriteBlueprintFiles_spec_def)
  have hs: "headers_of ?calls \<noteq> []"
    by simp
  from save_blueprint_files
    [where fs = fs and contents = contents and JSON_parse = JSON_parse
       and blueprint = D and WriteBlueprintFiles = "WriteBlueprintFiles_spec L"
       and calls = ?calls and summary = ?summary,
     OF assms(1) assms(2) emit hs]
  obtain s where run: "save_blueprint JSON_parse (WriteBlueprintFiles_spec L) fs = Inr s"
    and fs': "files s =
                fs(out_path \<mapsto> header_layout L (doc_header D) @ concat (body_chunks L D),
                   out_path_cfg \<mapsto> config_layout L (doc_config D))"
    by (auto simp: headers_of_map_OnChunk chunks_of_map_OnChunk)
  have "files s out_path = Some (header_layout L (doc_header D) @ concat (body_chunks L D))"
    by (simp add: fs' out_paths_differ)
  moreover have "files s out_path_cfg = Some (config_layout L (doc_config D))"
    by (simp add: fs')
  ultimately show ?thesis
    using run emit body_chunks_nonempty by blast
qed

theorem main_file_is_header_then_chunks_witness:
  "[in_path \<mapsto> [0x7B, 0x7D]] in_path = Some [0x7B, 0x7D :: 8 word] \<and>
   (\<lambda>b. Inr example_document) [0x7B, 0x7D :: 8 word] =
     (Inr example_document :: js_error + (unit, nat, unit) document) \<and>
   valid_document example_document \<and>
   WriteBlueprintFiles_spec example_layout example_document =
     ([OnHeader [1, 2], OnChunk [1, 2], OnChunk [3]], Inr \<lparr>configFileBinary = [7]\<rparr>) \<and>
   (\<exists>s. save_blueprint (\<lambda>b. (Inr example_document :: js_error + (unit, nat, unit) document))
          (WriteBlueprintFiles_spec example_layout) [in_path \<mapsto> [0x7B, 0x7D]] = Inr s \<and>
        files s out_path = Some [1, 2, 1, 2, 3] \<and>
        files s out_path_cfg = Some [7])"
proof -
  have v: "valid_document example_document"
    by (simp add: valid_document_def example_document_def)
  have h: "header_layout example_layout (doc_header example_document) = [1, 2]"
    by (simp add: example_layout_def example_document_def)
  have b: "body_chunks example_layout example_document = [[1, 2], [3]]"
    by (simp add: body_chunks_def example_layout_def example_document_def)
  have c: "config_layout example_layout (doc_config example_document) = [7]"
    by (simp add: example_layout_def example_document_def)
  show ?thesis
    using v main_file_is_header_then_chunks
      [where fs = "[in_path \<mapsto> [0x7B, 0x7D]]" and contents = "[0x7B, 0x7D]"
         and JSON_parse = "\<lambda>b. (Inr example_document :: js_error + (unit, nat, unit) document)"
         and D = example_document and L = example_layout]
    by (simp add: h b c)
qed

subsection \<open>A header delivered more than once\<close>

text \<open>
  C10. When the header sink is invoked more than once during the call of
  \<^verbatim>\<open>WriteBlueprintFiles\<close>, the main file the script assembles holds the header delivered
  last and no other (the variable is overwritten at each delivery), followed by every
  chunk delivered, wherever among the headers it came, in the order of delivery.
\<close>

theorem last_header_is_written:
  assumes "fs in_path = Some contents"
    and "JSON_parse contents = Inr blueprint"
    and "WriteBlueprintFiles blueprint = (calls, Inr summary)"
    and "1 < length (headers_of calls)"
  shows "\<exists>s. save_blueprint JSON_parse WriteBlueprintFiles fs = Inr s \<and>
             mainFileHeader s = Some (last (headers_of calls)) \<and>
             mainFileBodyChunks s = chunks_of calls \<and>
             files s out_path = Some (last (headers_of calls) @ concat (chunks_of calls))"
proof -
  from assms(4) have hs: "headers_of calls \<noteq> []"
    by auto
  let ?s = "run_sinks \<lparr>console = [], files = fs,
                        mainFileHeader = None, mainFileBodyChunks = []\<rparr> calls"
  let ?main = "last (headers_of calls) @ concat (chunks_of calls)"
  let ?t = "?s\<lparr>files := (files ?s)(out_path \<mapsto> ?main,
                                     out_path_cfg \<mapsto> configFileBinary summary)\<rparr>"
  have run: "save_blueprint JSON_parse WriteBlueprintFiles fs = Inr ?t"
    using assms(1) assms(2) assms(3) hs
    by (simp add: save_blueprint_def Let_def run_sinks_header run_sinks_chunks
        Buffer_concat_Some)
  have "mainFileHeader ?t = Some (last (headers_of calls))"
    using hs by (simp add: run_sinks_header)
  moreover have "mainFileBodyChunks ?t = chunks_of calls"
    by (simp add: run_sinks_chunks)
  moreover have "files ?t out_path = Some ?main"
    by (simp add: out_paths_differ)
  ultimately show ?thesis
    using run by blast
qed

theorem last_header_is_written_witness:
  "[in_path \<mapsto> [0x7B, 0x7D]] in_path = Some [0x7B, 0x7D :: 8 word] \<and>
   (\<lambda>b. Inr ()) [0x7B, 0x7D :: 8 word] = (Inr () :: js_error + unit) \<and>
   (\<lambda>d. ([OnChunk [1], OnHeader [2, 0], OnChunk [3, 4], OnHeader [5], OnChunk [6]],
          Inr \<lparr>configFileBinary = [9]\<rparr>)) () =
     ([OnChunk [1], OnHeader [2, 0], OnChunk [3, 4], OnHeader [5], OnChunk [6]],
      Inr \<lparr>configFileBinary = [9]\<rparr>) \<and>
   1 < length (headers_of
         [OnChunk [1], OnHeader [2, 0], OnChunk [3, 4], OnHeader [5], OnChunk [6]]) \<and>
   (\<exists>s. save_blueprint (\<lambda>b. (Inr () :: js_error + unit))
          (\<lambda>d. ([OnChunk [1], OnHeader [2, 0], OnChunk [3, 4], OnHeader [5], OnChunk [6]],
                 Inr \<lparr>configFileBinary = [9]\<rparr>))
          [in_path \<mapsto> [0x7B, 0x7D]] = Inr s \<and>
        mainFileHeader s = Some [5] \<and>
        mainFileBodyChunks s = [[1], [3, 4], [6]] \<and>
        files s out_path = Some [5, 1, 3, 4, 6])"
  using last_header_is_written
    [where fs = "[in_path \<mapsto> [0x7B, 0x7D]]" and contents = "[0x7B, 0x7D]"
       and JSON_parse = "\<lambda>b. (Inr () :: js_error + unit)" and blueprint = "()"
       and WriteBlueprintFiles =
         "\<lambda>d. ([OnChunk [1], OnHeader [2, 0], OnChunk [3, 4], OnHeader [5], OnChunk [6]],
                Inr \<lparr>configFileBinary = [9]\<rparr>)"
       and calls = "[OnChunk [1], OnHeader [2, 0], OnChunk [3, 4], OnHeader [5], OnChunk [6]]"
       and summary = "\<lparr>configFileBinary = [9]\<rparr>"]
  by simp

end
